theory Spec2Isabelle
  imports Complex_Main
begin

section \<open>Python values used by \<open>app/processor.py\<close>\<close>

text \<open>
  The event payload is the result of \<open>json.loads\<close>: a JSON value. The type of
  floating-point numbers is left as the parameter \<open>'f\<close>; the only thing the source asks
  of a float is the comparison \<open>ge=0\<close>.
  A Python \<open>dict\<close> decoded from JSON is an association list (insertion order kept);
  \<open>d.get(k)\<close> is \<open>dict_get\<close>.
\<close>

datatype 'f json =
    JNull
  | JBool bool
  | JInt int
  | JFloat 'f
  | JStr string
  | JArr "'f json list"
  | JObj "(string \<times> 'f json) list"

type_synonym 'f pydict = "(string \<times> 'f json) list"

definition dict_get :: "'f pydict \<Rightarrow> string \<Rightarrow> 'f json option" where
  "dict_get d k = map_of d k"

text \<open>
  An exception object: its class name and \<open>str(exc)\<close>. A function that can raise
  returns \<open>exn + 'a\<close>, with \<open>Inl\<close> for the raised exception.
\<close>

datatype exn = Exn (exn_class: string) (exn_str: string)

definition OverflowError :: exn where
  "OverflowError = Exn ''OverflowError'' ''date value out of range''"

section \<open>Strings: \<open>str.strip\<close>, \<open>str.replace\<close>, \<open>%0wd\<close>\<close>

definition isspace :: "char \<Rightarrow> bool" where
  "isspace c = ((of_char c :: nat) \<in> {9, 10, 11, 12, 13, 28, 29, 30, 31, 32, 133, 160})"

definition strip :: "string \<Rightarrow> string" where
  "strip s = rev (dropWhile isspace (rev (dropWhile isspace s)))"

text \<open>
  \<open>s.replace(old, new)\<close>: every non-overlapping occurrence of \<open>old\<close>, scanning from the
  left. With an empty \<open>old\<close> Python puts \<open>new\<close> around every character.
\<close>

function replace_scan :: "string \<Rightarrow> string \<Rightarrow> string \<Rightarrow> string" where
  "replace_scan old new [] = []"
| "replace_scan old new (c # cs) =
     (if old \<noteq> [] \<and> take (length old) (c # cs) = old
      then new @ replace_scan old new (drop (length old) (c # cs))
      else c # replace_scan old new cs)"
  by pat_completeness auto
termination
  by (relation "measure (\<lambda>(old, new, s). length s)") auto

definition str_replace :: "string \<Rightarrow> string \<Rightarrow> string \<Rightarrow> string" where
  "str_replace s old new =
     (if old = [] then new @ concat (map (\<lambda>c. c # new) s) else replace_scan old new s)"

definition digit_char :: "nat \<Rightarrow> char" where
  "digit_char n = ''0123456789'' ! n"

fun dec :: "nat \<Rightarrow> string" where
  "dec n = (if n < 10 then [digit_char n] else dec (n div 10) @ [digit_char (n mod 10)])"

declare dec.simps [simp del]

text \<open>\<open>"%0wd" % i\<close>: decimal, zero-padded to width \<open>w\<close>, the sign counted in the width.\<close>

definition fmt_d :: "nat \<Rightarrow> int \<Rightarrow> string" where
  "fmt_d w i =
     (if i < 0
      then CHR ''-'' # replicate (w - 1 - length (dec (nat (- i)))) CHR ''0'' @ dec (nat (- i))
      else replicate (w - length (dec (nat i))) CHR ''0'' @ dec (nat i))"

section \<open>\<open>datetime\<close>\<close>

text \<open>
  A \<open>datetime\<close> object. \<open>tzinfo\<close> is \<open>None\<close> for a naive value and otherwise the UTC
  offset of its fixed-offset time zone in microseconds (\<open>timezone.utc\<close> is offset 0).
  The constructor's range checks are \<open>valid_datetime\<close>.
\<close>

record datetime =
  year :: int
  month :: int
  day :: int
  hour :: int
  minute :: int
  second :: int
  microsecond :: int
  tzinfo :: "int option"

definition MAXORDINAL :: int where
  "MAXORDINAL = 3652059"

definition is_leap :: "int \<Rightarrow> bool" where
  "is_leap y = (y mod 4 = 0 \<and> (y mod 100 \<noteq> 0 \<or> y mod 400 = 0))"

definition days_before_year :: "int \<Rightarrow> int" where
  "days_before_year y = (let z = y - 1 in z * 365 + z div 4 - z div 100 + z div 400)"

definition DAYS_IN_MONTH :: "int list" where
  "DAYS_IN_MONTH = [-1, 31, 28, 31, 30, 31, 30, 31, 31, 30, 31, 30, 31]"

definition DAYS_BEFORE_MONTH :: "int list" where
  "DAYS_BEFORE_MONTH = [-1, 0, 31, 59, 90, 120, 151, 181, 212, 243, 273, 304, 334]"

definition days_in_month :: "int \<Rightarrow> int \<Rightarrow> int" where
  "days_in_month y m = (if m = 2 \<and> is_leap y then 29 else DAYS_IN_MONTH ! nat m)"

definition days_before_month :: "int \<Rightarrow> int \<Rightarrow> int" where
  "days_before_month y m = DAYS_BEFORE_MONTH ! nat m + (if m > 2 \<and> is_leap y then 1 else 0)"

definition ymd2ord :: "int \<Rightarrow> int \<Rightarrow> int \<Rightarrow> int" where
  "ymd2ord y m d = days_before_year y + days_before_month y m + d"

definition ord2ymd :: "int \<Rightarrow> int \<times> int \<times> int" where
  "ord2ymd n0 =
     (let n = n0 - 1;
          n400 = n div 146097; n = n mod 146097;
          y = n400 * 400 + 1;
          n100 = n div 36524; n = n mod 36524;
          n4 = n div 1461; n = n mod 1461;
          n1 = n div 365; n = n mod 365;
          y = y + n100 * 100 + n4 * 4 + n1
      in if n1 = 4 \<or> n100 = 4 then (y - 1, 12, 31)
         else
           let leapyear = (n1 = 3 \<and> (n4 \<noteq> 24 \<or> n100 = 3));
               m = (n + 50) div 32;
               preceding = DAYS_BEFORE_MONTH ! nat m + (if m > 2 \<and> leapyear then 1 else 0)
           in if preceding > n
              then let m' = m - 1;
                       preceding' = preceding
                         - (DAYS_IN_MONTH ! nat m' + (if m' = 2 \<and> leapyear then 1 else 0))
                   in (y, m', n - preceding' + 1)
              else (y, m, n - preceding + 1))"

definition valid_datetime :: "datetime \<Rightarrow> bool" where
  "valid_datetime d =
     (1 \<le> year d \<and> year d \<le> 9999 \<and> 1 \<le> month d \<and> month d \<le> 12
      \<and> 1 \<le> day d \<and> day d \<le> days_in_month (year d) (month d)
      \<and> 0 \<le> hour d \<and> hour d \<le> 23 \<and> 0 \<le> minute d \<and> minute d \<le> 59
      \<and> 0 \<le> second d \<and> second d \<le> 59 \<and> 0 \<le> microsecond d \<and> microsecond d \<le> 999999
      \<and> (case tzinfo d of None \<Rightarrow> True
          | Some off \<Rightarrow> - 86400000000 < off \<and> off < 86400000000))"

text \<open>\<open>dt.replace(tzinfo=UTC)\<close>.\<close>

definition replace_tzinfo_utc :: "datetime \<Rightarrow> datetime" where
  "replace_tzinfo_utc d = d\<lparr>tzinfo := Some 0\<rparr>"

text \<open>
  \<open>dt - offset\<close> (\<open>datetime.__add__\<close> with the negated \<open>timedelta\<close>): the ordinal day
  and the time of day are turned into one count of microseconds, the offset is
  subtracted, and the result is rebuilt from its day number. A day number outside
  \<open>1..MAXORDINAL\<close> raises \<open>OverflowError\<close>.
\<close>

definition datetime_sub :: "datetime \<Rightarrow> int \<Rightarrow> exn + datetime" where
  "datetime_sub d off =
     (let us = (((ymd2ord (year d) (month d) (day d) * 24 + hour d) * 60 + minute d) * 60
                 + second d) * 1000000 + microsecond d - off;
          days = us div 86400000000;
          r = us mod 86400000000;
          secs = r div 1000000
      in if 0 < days \<and> days \<le> MAXORDINAL
         then (case ord2ymd days of (y, m, dd) \<Rightarrow>
                 Inr (d\<lparr>year := y, month := m, day := dd,
                        hour := secs div 3600, minute := secs mod 3600 div 60,
                        second := secs mod 60, microsecond := r mod 1000000\<rparr>))
         else Inl OverflowError)"

text \<open>
  \<open>dt.astimezone(UTC)\<close> for an aware \<open>dt\<close> whose UTC offset is \<open>off\<close>. When \<open>dt\<close>
  already carries \<open>timezone.utc\<close> the method returns \<open>dt\<close> itself (\<open>tz is mytz\<close>);
  otherwise the offset is subtracted and \<open>timezone.utc\<close> attached.
\<close>

definition astimezone_utc :: "datetime \<Rightarrow> int \<Rightarrow> exn + datetime" where
  "astimezone_utc d off =
     (if off = 0 then Inr (replace_tzinfo_utc d)
      else case datetime_sub d off of
             Inl e \<Rightarrow> Inl e
           | Inr u \<Rightarrow> Inr (replace_tzinfo_utc u))"

text \<open>\<open>_format_time(hh, mm, ss, us)\<close> with \<open>timespec='auto'\<close>.\<close>

definition format_time :: "int \<Rightarrow> int \<Rightarrow> int \<Rightarrow> int \<Rightarrow> string" where
  "format_time hh mm ss us =
     fmt_d 2 hh @ '':'' @ fmt_d 2 mm @ '':'' @ fmt_d 2 ss
     @ (if us \<noteq> 0 then ''.'' @ fmt_d 6 us else [])"

text \<open>\<open>_format_offset(off)\<close>: \<open>+HH:MM\<close>, with \<open>:SS\<close> and \<open>.ffffff\<close> when they are not zero.\<close>

definition format_offset :: "int option \<Rightarrow> string" where
  "format_offset off =
     (case off of
        None \<Rightarrow> []
      | Some o1 \<Rightarrow>
          let sgn = (if o1 < 0 then ''-'' else ''+'');
              a = \<bar>o1\<bar>;
              hh = a div 3600000000;
              r = a mod 3600000000;
              mm = r div 60000000;
              ss = r mod 60000000
          in sgn @ fmt_d 2 hh @ '':'' @ fmt_d 2 mm
             @ (if ss \<noteq> 0
                then '':'' @ fmt_d 2 (ss div 1000000)
                     @ (if ss mod 1000000 \<noteq> 0 then ''.'' @ fmt_d 6 (ss mod 1000000) else [])
                else []))"

definition isoformat :: "datetime \<Rightarrow> string" where
  "isoformat d =
     fmt_d 4 (year d) @ ''-'' @ fmt_d 2 (month d) @ ''-'' @ fmt_d 2 (day d) @ ''T''
     @ format_time (hour d) (minute d) (second d) (microsecond d)
     @ format_offset (tzinfo d)"

section \<open>\<open>_to_rfc3339\<close>\<close>

definition to_rfc3339 :: "datetime option \<Rightarrow> exn + string option" where
  "to_rfc3339 dt =
     (case dt of
        None \<Rightarrow> Inr None
      | Some d \<Rightarrow>
          (case (case tzinfo d of
                   None \<Rightarrow> astimezone_utc (replace_tzinfo_utc d) 0
                 | Some off \<Rightarrow> astimezone_utc d off) of
             Inl e \<Rightarrow> Inl e
           | Inr normalized \<Rightarrow> Inr (Some (str_replace (isoformat normalized) ''+00:00'' ''Z''))))"

section \<open>\<open>UUID\<close>\<close>

text \<open>
  A \<open>UUID\<close> object is its 128-bit integer. \<open>str(u)\<close> is \<open>'%032x' % u.int\<close> cut into
  the groups 8-4-4-4-12.
\<close>

datatype uuid = UUID (uuid_int: nat)

definition valid_uuid :: "uuid \<Rightarrow> bool" where
  "valid_uuid u = (uuid_int u < 2 ^ 128)"

definition hex_char :: "nat \<Rightarrow> char" where
  "hex_char n = ''0123456789abcdef'' ! n"

fun hex :: "nat \<Rightarrow> string" where
  "hex n = (if n < 16 then [hex_char n] else hex (n div 16) @ [hex_char (n mod 16)])"

declare hex.simps [simp del]

definition uuid_str :: "uuid \<Rightarrow> string" where
  "uuid_str u =
     (let h = replicate (32 - length (hex (uuid_int u))) CHR ''0'' @ hex (uuid_int u)
      in take 8 h @ ''-'' @ take 4 (drop 8 h) @ ''-'' @ take 4 (drop 12 h) @ ''-''
         @ take 4 (drop 16 h) @ ''-'' @ drop 20 h)"

definition hex_val :: "char \<Rightarrow> nat option" where
  "hex_val c =
     (let n = (of_char c :: nat)
      in if 48 \<le> n \<and> n \<le> 57 then Some (n - 48)
         else if 97 \<le> n \<and> n \<le> 102 then Some (n - 87)
         else if 65 \<le> n \<and> n \<le> 70 then Some (n - 55)
         else None)"

fun hex_num :: "nat \<Rightarrow> string \<Rightarrow> nat option" where
  "hex_num acc [] = Some acc"
| "hex_num acc (c # cs) =
     (case hex_val c of None \<Rightarrow> None | Some v \<Rightarrow> hex_num (acc * 16 + v) cs)"

text \<open>
  The hyphenated form \<open>xxxxxxxx-xxxx-xxxx-xxxx-xxxxxxxxxxxx\<close>, hexadecimal digits of
  either case: the form every UUID parser accepts.
\<close>

definition uuid_hyphenated :: "string \<Rightarrow> uuid option" where
  "uuid_hyphenated s =
     (if length s = 36 \<and> s ! 8 = CHR ''-'' \<and> s ! 13 = CHR ''-'' \<and> s ! 18 = CHR ''-''
         \<and> s ! 23 = CHR ''-''
      then map_option UUID
             (hex_num 0 (take 8 s @ take 4 (drop 9 s) @ take 4 (drop 14 s)
                         @ take 4 (drop 19 s) @ drop 24 s))
      else None)"

section \<open>RFC 3339 timestamps\<close>

text \<open>
  The strings \<open>YYYY-MM-DDTHH:MM:SS[.ffffff][Z|+HH:MM|-HH:MM]\<close> that denote a date and
  time in range. \<open>datetime.fromisoformat\<close> (Python 3.11 and later) and the datetime
  validator of pydantic both accept each of them, with the value computed here.
\<close>

definition is_digit :: "char \<Rightarrow> bool" where
  "is_digit c = (48 \<le> (of_char c :: nat) \<and> (of_char c :: nat) \<le> 57)"

fun dec_num :: "int \<Rightarrow> string \<Rightarrow> int option" where
  "dec_num acc [] = Some acc"
| "dec_num acc (c # cs) =
     (if is_digit c then dec_num (acc * 10 + (int (of_char c) - 48)) cs else None)"

definition num :: "string \<Rightarrow> int option" where
  "num s = (if s = [] then None else dec_num 0 s)"

definition parse_fraction :: "string \<Rightarrow> (int \<times> string) option" where
  "parse_fraction s =
     (case s of
        c # cs \<Rightarrow>
          if c = CHR ''.''
          then (if length cs \<ge> 6
                then map_option (\<lambda>us. (us, drop 6 cs)) (num (take 6 cs))
                else None)
          else Some (0, s)
      | [] \<Rightarrow> Some (0, s))"

definition parse_offset :: "string \<Rightarrow> int option option" where
  "parse_offset s =
     (if s = [] then Some None
      else if s = ''Z'' then Some (Some 0)
      else if length s = 6 \<and> (s ! 0 = CHR ''+'' \<or> s ! 0 = CHR ''-'') \<and> s ! 3 = CHR '':''
      then (case (num (take 2 (drop 1 s)), num (drop 4 s)) of
              (Some hh, Some mm) \<Rightarrow>
                if hh \<le> 23 \<and> mm \<le> 59
                then Some (Some ((if s ! 0 = CHR ''-'' then - 1 else 1)
                                 * ((hh * 60 + mm) * 60000000)))
                else None
            | _ \<Rightarrow> None)
      else None)"

definition rfc3339_datetime :: "string \<Rightarrow> datetime option" where
  "rfc3339_datetime s =
     (if length s \<ge> 19 \<and> s ! 4 = CHR ''-'' \<and> s ! 7 = CHR ''-'' \<and> s ! 10 = CHR ''T''
         \<and> s ! 13 = CHR '':'' \<and> s ! 16 = CHR '':''
      then (case (num (take 4 s), num (take 2 (drop 5 s)), num (take 2 (drop 8 s)),
                  num (take 2 (drop 11 s)), num (take 2 (drop 14 s)),
                  num (take 2 (drop 17 s)), parse_fraction (drop 19 s)) of
              (Some y, Some m, Some d, Some hh, Some mm, Some ss, Some (us, rest)) \<Rightarrow>
                (case parse_offset rest of
                   Some tz \<Rightarrow>
                     (let dt = \<lparr>year = y, month = m, day = d, hour = hh, minute = mm,
                                second = ss, microsecond = us, tzinfo = tz\<rparr>
                      in if valid_datetime dt then Some dt else None)
                 | None \<Rightarrow> None)
            | _ \<Rightarrow> None)
      else None)"

section \<open>The libraries\<close>

text \<open>
  What the standard library and pydantic do outside the forms fixed above is a parameter
  of the model: every theorem below that mentions a library \<open>L\<close> holds for each choice of
  these functions. \<open>None\<close> stands for the \<open>ValueError\<close> or the validation error of the
  function. \<open>strict_lib\<close> is the library that accepts nothing else.
\<close>

datatype defect_type =
    missing
  | string_type
  | string_too_short
  | string_too_long
  | enum_error
  | uuid_error
  | float_error
  | greater_than_equal
  | datetime_error

datatype defect = Defect (loc: string) (type: defect_type)

record 'f pylib =
  fromisoformat_other :: "string \<Rightarrow> datetime option"
  uuid_other :: "'f json \<Rightarrow> uuid option"
  float_other :: "'f json \<Rightarrow> 'f option"
  datetime_other :: "'f json \<Rightarrow> datetime option"
  py_str :: "'f json \<Rightarrow> string"
  json_dumps :: "'f json \<Rightarrow> string"
  errors_dumps :: "defect list \<Rightarrow> string"

definition strict_lib :: "'f pylib" where
  "strict_lib =
     \<lparr>fromisoformat_other = (\<lambda>s. None), uuid_other = (\<lambda>j. None), float_other = (\<lambda>j. None),
      datetime_other = (\<lambda>j. None), py_str = (\<lambda>j. []), json_dumps = (\<lambda>j. []),
      errors_dumps = (\<lambda>ds. [])\<rparr>"

definition checked_datetime :: "datetime option \<Rightarrow> datetime option" where
  "checked_datetime r =
     (case r of Some d \<Rightarrow> if valid_datetime d then Some d else None | None \<Rightarrow> None)"

text \<open>\<open>datetime.fromisoformat(s)\<close>; \<open>None\<close> is \<open>ValueError\<close>.\<close>

definition fromisoformat :: "'f pylib \<Rightarrow> string \<Rightarrow> datetime option" where
  "fromisoformat L s =
     (case rfc3339_datetime s of
        Some d \<Rightarrow> Some d
      | None \<Rightarrow> checked_datetime (fromisoformat_other L s))"

section \<open>\<open>_parse_rfc3339_timestamp\<close>\<close>

definition parse_rfc3339_timestamp :: "'f pylib \<Rightarrow> string option \<Rightarrow> exn + datetime option" where
  "parse_rfc3339_timestamp L v =
     (case v of
        None \<Rightarrow> Inr None
      | Some s \<Rightarrow>
          if s = [] then Inr None
          else
            let normalized = str_replace (strip s) ''Z'' ''+00:00''
            in case fromisoformat L normalized of
                 None \<Rightarrow> Inr None
               | Some parsed \<Rightarrow>
                   (case tzinfo parsed of
                      None \<Rightarrow> Inr (Some (replace_tzinfo_utc parsed))
                    | Some off \<Rightarrow>
                        (case astimezone_utc parsed off of
                           Inl e \<Rightarrow> Inl e
                         | Inr u \<Rightarrow> Inr (Some u))))"

section \<open>The schema: \<open>EventType\<close>, \<open>DeviceType\<close>, \<open>EcommerceEvent\<close>\<close>

datatype EventType = view | add_to_cart | remove_from_cart | checkout | purchase | search

datatype DeviceType = mobile | desktop | tablet

text \<open>The \<open>.value\<close> of an enum member.\<close>

fun EventType_value :: "EventType \<Rightarrow> string" where
  "EventType_value view = ''view''"
| "EventType_value add_to_cart = ''add_to_cart''"
| "EventType_value remove_from_cart = ''remove_from_cart''"
| "EventType_value checkout = ''checkout''"
| "EventType_value purchase = ''purchase''"
| "EventType_value search = ''search''"

fun DeviceType_value :: "DeviceType \<Rightarrow> string" where
  "DeviceType_value mobile = ''mobile''"
| "DeviceType_value desktop = ''desktop''"
| "DeviceType_value tablet = ''tablet''"

record 'f EcommerceEvent =
  event_id :: uuid
  user_id :: string
  event_type :: EventType
  product_id :: string
  category :: string
  price :: 'f
  device :: DeviceType
  city :: string
  event_time :: datetime

text \<open>
  The validators of the nine fields, on a value decoded from JSON. Each returns the
  typed value or the type of its defect.

  \<open>str\<close> with \<open>Field(min_length=1, max_length=128)\<close>: only a JSON string is a \<open>str\<close>;
  the length is counted in characters.
\<close>

definition validate_str :: "'f json \<Rightarrow> defect_type + string" where
  "validate_str j =
     (case j of
        JStr s \<Rightarrow>
          if length s < 1 then Inl string_too_short
          else if length s > 128 then Inl string_too_long
          else Inr s
      | _ \<Rightarrow> Inl string_type)"

text \<open>An enum field: the input has to be the value of a member.\<close>

definition validate_enum :: "'e list \<Rightarrow> ('e \<Rightarrow> string) \<Rightarrow> 'f json \<Rightarrow> defect_type + 'e" where
  "validate_enum members val j =
     (case j of
        JStr s \<Rightarrow>
          (case find (\<lambda>m. val m = s) members of
             Some m \<Rightarrow> Inr m
           | None \<Rightarrow> Inl enum_error)
      | _ \<Rightarrow> Inl enum_error)"

definition validate_EventType :: "'f json \<Rightarrow> defect_type + EventType" where
  "validate_EventType =
     validate_enum [view, add_to_cart, remove_from_cart, checkout, purchase, search]
       EventType_value"

definition validate_DeviceType :: "'f json \<Rightarrow> defect_type + DeviceType" where
  "validate_DeviceType = validate_enum [mobile, desktop, tablet] DeviceType_value"

text \<open>\<open>UUID\<close>: a hyphenated string is parsed here, any other input by the library.\<close>

definition validate_uuid :: "'f pylib \<Rightarrow> 'f json \<Rightarrow> defect_type + uuid" where
  "validate_uuid L j =
     (case (case j of JStr s \<Rightarrow> uuid_hyphenated s | _ \<Rightarrow> None) of
        Some u \<Rightarrow> Inr u
      | None \<Rightarrow>
          (case uuid_other L j of
             Some u \<Rightarrow> if valid_uuid u then Inr u else Inl uuid_error
           | None \<Rightarrow> Inl uuid_error))"

text \<open>
  \<open>float\<close> with \<open>Field(ge=0)\<close>: a JSON float is taken as it is, any other input is
  converted by the library; then the bound is checked.
\<close>

definition validate_price :: "('f::{zero,ord}) pylib \<Rightarrow> 'f json \<Rightarrow> defect_type + 'f" where
  "validate_price L j =
     (case (case j of JFloat x \<Rightarrow> Some x | _ \<Rightarrow> float_other L j) of
        Some x \<Rightarrow> if x \<ge> 0 then Inr x else Inl greater_than_equal
      | None \<Rightarrow> Inl float_error)"

text \<open>\<open>datetime\<close>: an RFC 3339 string is parsed here, any other input by the library.\<close>

definition validate_datetime :: "'f pylib \<Rightarrow> 'f json \<Rightarrow> defect_type + datetime" where
  "validate_datetime L j =
     (case (case j of JStr s \<Rightarrow> rfc3339_datetime s | _ \<Rightarrow> None) of
        Some d \<Rightarrow> Inr d
      | None \<Rightarrow>
          (case checked_datetime (datetime_other L j) of
             Some d \<Rightarrow> Inr d
           | None \<Rightarrow> Inl datetime_error))"

text \<open>
  One field of the model: a key that is absent is the defect \<open>missing\<close> (no field has a
  default), a value that its validator refuses is that validator's defect.
\<close>

definition validate_field ::
  "'f pydict \<Rightarrow> string \<Rightarrow> ('f json \<Rightarrow> defect_type + 'a) \<Rightarrow> defect + 'a" where
  "validate_field ev name v =
     (case dict_get ev name of
        None \<Rightarrow> Inl (Defect name missing)
      | Some j \<Rightarrow>
          (case v j of
             Inl t \<Rightarrow> Inl (Defect name t)
           | Inr x \<Rightarrow> Inr x))"

definition errors_of :: "defect + 'a \<Rightarrow> defect list" where
  "errors_of r = (case r of Inl d \<Rightarrow> [d] | Inr x \<Rightarrow> [])"

text \<open>
  \<open>EcommerceEvent.model_validate(event)\<close>: the fields are validated one after the other
  in the order of their declaration, every defect is kept, and the keys of the input
  that are no field are left alone (\<open>extra="allow"\<close>). With no defect the model is
  built; otherwise \<open>ValidationError\<close> is raised, and \<open>exc.errors()\<close> is the list in \<open>Inl\<close>.
\<close>

definition model_validate ::
  "('f::{zero,ord}) pylib \<Rightarrow> 'f pydict \<Rightarrow> defect list + 'f EcommerceEvent" where
  "model_validate L ev =
     (let r_event_id = validate_field ev ''event_id'' (validate_uuid L);
          r_user_id = validate_field ev ''user_id'' validate_str;
          r_event_type = validate_field ev ''event_type'' validate_EventType;
          r_product_id = validate_field ev ''product_id'' validate_str;
          r_category = validate_field ev ''category'' validate_str;
          r_price = validate_field ev ''price'' (validate_price L);
          r_device = validate_field ev ''device'' validate_DeviceType;
          r_city = validate_field ev ''city'' validate_str;
          r_event_time = validate_field ev ''event_time'' (validate_datetime L);
          errors = errors_of r_event_id @ errors_of r_user_id @ errors_of r_event_type
                   @ errors_of r_product_id @ errors_of r_category @ errors_of r_price
                   @ errors_of r_device @ errors_of r_city @ errors_of r_event_time
      in if errors = []
         then Inr \<lparr>event_id = projr r_event_id, user_id = projr r_user_id,
                   event_type = projr r_event_type, product_id = projr r_product_id,
                   category = projr r_category, price = projr r_price,
                   device = projr r_device, city = projr r_city,
                   event_time = projr r_event_time\<rparr>
         else Inl errors)"

section \<open>Rows and the writer\<close>

record BigQueryTarget =
  dataset_id :: string
  table_id :: string

record PipelineConfig =
  dataset_id :: string
  raw_table_id :: string
  processed_table_id :: string
  error_table_id :: string
  source :: string

text \<open>A row is the \<open>dict\<close> literal of the source: its keys in order, each with its value.\<close>

datatype 'f cell = VNull | VStr string | VBool bool | VFloat 'f

type_synonym 'f row = "(string \<times> 'f cell) list"

definition opt_str :: "string option \<Rightarrow> 'f cell" where
  "opt_str v = (case v of None \<Rightarrow> VNull | Some s \<Rightarrow> VStr s)"

text \<open>
  One call \<open>writer.insert_row(target, row, insert_id=...)\<close>. The writer is any function
  of the call and of its own state; it returns \<open>Some exc\<close> when the call raises.
\<close>

type_synonym 'f insert_call = "BigQueryTarget \<times> 'f row \<times> string option"

type_synonym ('f, 'w) writer = "'f insert_call \<Rightarrow> 'w \<Rightarrow> exn option \<times> 'w"

text \<open>\<open>a or b\<close> on optional strings: \<open>None\<close> and the empty string are false.\<close>

definition py_or :: "string option \<Rightarrow> string option \<Rightarrow> string option" where
  "py_or a b = (case a of Some s \<Rightarrow> if s \<noteq> [] then Some s else b | None \<Rightarrow> b)"

text \<open>\<open>str(x)\<close> of a decoded JSON value: a string is itself.\<close>

definition str_of :: "'f pylib \<Rightarrow> 'f json \<Rightarrow> string" where
  "str_of L j = (case j of JStr s \<Rightarrow> s | _ \<Rightarrow> py_str L j)"

text \<open>\<open>_utc_now()\<close>: the reading of the clock, as an aware datetime in UTC.\<close>

definition utc_now :: "datetime \<Rightarrow> datetime" where
  "utc_now clock = replace_tzinfo_utc clock"

section \<open>\<open>_insert_error_event\<close>\<close>

definition insert_error_event ::
  "'f pylib \<Rightarrow> ('f, 'w) writer \<Rightarrow> PipelineConfig \<Rightarrow> string option \<Rightarrow> datetime option
   \<Rightarrow> datetime \<Rightarrow> string option \<Rightarrow> string \<Rightarrow> string \<Rightarrow> defect list option
   \<Rightarrow> 'f pydict \<Rightarrow> 'f pydict option \<Rightarrow> 'w \<Rightarrow> (exn + unit) \<times> 'w" where
  "insert_error_event L insert_row config message_id publish_time ingestion_time event_id'
       stage error_message error_details raw_event attributes w =
     (let target = \<lparr>BigQueryTarget.dataset_id = PipelineConfig.dataset_id config,
                    table_id = error_table_id config\<rparr>
      in case to_rfc3339 publish_time of
           Inl e \<Rightarrow> (Inl e, w)
         | Inr publish_s \<Rightarrow>
             (case to_rfc3339 (Some ingestion_time) of
                Inl e \<Rightarrow> (Inl e, w)
              | Inr ingestion_s \<Rightarrow>
                  (let row =
                         [(''message_id'', opt_str message_id),
                          (''event_id'', opt_str event_id'),
                          (''publish_time'', opt_str publish_s),
                          (''ingestion_time'', opt_str ingestion_s),
                          (''stage'', VStr stage),
                          (''error_message'', VStr error_message),
                          (''error_details'',
                             (case error_details of
                                Some ds \<Rightarrow> VStr (errors_dumps L ds)
                              | None \<Rightarrow> VNull)),
                          (''raw_payload'', VStr (json_dumps L (JObj raw_event))),
                          (''attributes'',
                             VStr (json_dumps L
                                    (JObj (case attributes of Some a \<Rightarrow> a | None \<Rightarrow> [])))),
                          (''source'', VStr (source config))]
                   in case insert_row (target, row, py_or event_id' message_id) w of
                        (Some e, w') \<Rightarrow> (Inl e, w')
                      | (None, w') \<Rightarrow> (Inr (), w'))))"

section \<open>\<open>process_event\<close>\<close>

text \<open>
  The result is \<open>Inr ()\<close> when the function returns and \<open>Inl exc\<close> when \<open>exc\<close> leaves it,
  together with the state of the writer. In the last branch the source runs
  \<open>_insert_error_event\<close> inside \<open>try: ... finally: raise\<close> within the handler of the
  failed insert: when the inner call returns, the bare \<open>raise\<close> re-raises the handled
  exception; when the inner call raises, that exception is the one in flight in the
  \<open>finally\<close> block, and the bare \<open>raise\<close> re-raises it (the first one is only its
  \<open>__context__\<close>).
\<close>

definition process_event ::
  "('f::{zero,ord}) pylib \<Rightarrow> ('f, 'w) writer \<Rightarrow> PipelineConfig \<Rightarrow> datetime \<Rightarrow> 'f pydict
   \<Rightarrow> string option \<Rightarrow> string option \<Rightarrow> 'f pydict option \<Rightarrow> 'w \<Rightarrow> (exn + unit) \<times> 'w" where
  "process_event L insert_row config clock event message_id publish_time attributes w =
     (let ingestion_time = utc_now clock
      in case parse_rfc3339_timestamp L publish_time of
           Inl e \<Rightarrow> (Inl e, w)
         | Inr publish_dt \<Rightarrow>
     (let r = model_validate L event;
          validated = (case r of Inr v \<Rightarrow> Some v | Inl errs \<Rightarrow> None);
          is_valid = (case r of Inr v \<Rightarrow> True | Inl errs \<Rightarrow> False);
          validation_errors = (case r of Inr v \<Rightarrow> None | Inl errs \<Rightarrow> Some errs);
          event_id_str = map_option (\<lambda>v. uuid_str (event_id v)) validated
      in case (case validated of
                 Some v \<Rightarrow>
                   (case tzinfo (event_time v) of
                      Some off \<Rightarrow>
                        (case astimezone_utc (event_time v) off of
                           Inl e \<Rightarrow> Inl e
                         | Inr u \<Rightarrow> Inr (Some u))
                    | None \<Rightarrow> Inr (Some (replace_tzinfo_utc (event_time v))))
               | None \<Rightarrow>
                   parse_rfc3339_timestamp L
                     (case dict_get event ''event_time'' of
                        None \<Rightarrow> None
                      | Some JNull \<Rightarrow> None
                      | Some j \<Rightarrow> Some (str_of L j))) of
           Inl e \<Rightarrow> (Inl e, w)
         | Inr event_time_dt \<Rightarrow>
     (let raw_target = \<lparr>BigQueryTarget.dataset_id = PipelineConfig.dataset_id config,
                        table_id = raw_table_id config\<rparr>;
          processed_target = \<lparr>BigQueryTarget.dataset_id = PipelineConfig.dataset_id config,
                              table_id = processed_table_id config\<rparr>
      in case to_rfc3339 publish_dt of
           Inl e \<Rightarrow> (Inl e, w)
         | Inr publish_s \<Rightarrow>
     (case to_rfc3339 (Some ingestion_time) of
           Inl e \<Rightarrow> (Inl e, w)
         | Inr ingestion_s \<Rightarrow>
     (let raw_row =
            [(''message_id'', opt_str message_id),
             (''event_id'', opt_str event_id_str),
             (''publish_time'', opt_str publish_s),
             (''ingestion_time'', opt_str ingestion_s),
             (''raw_payload'', VStr (json_dumps L (JObj event))),
             (''source'', VStr (source config)),
             (''attributes'',
                VStr (json_dumps L (JObj (case attributes of Some a \<Rightarrow> a | None \<Rightarrow> [])))),
             (''is_valid'', VBool is_valid),
             (''validation_errors'',
                (case validation_errors of
                   Some ds \<Rightarrow> if ds \<noteq> [] then VStr (errors_dumps L ds) else VNull
                 | None \<Rightarrow> VNull))];
          insert_id = py_or event_id_str message_id
      in case insert_row (raw_target, raw_row, insert_id) w of
           (Some e, w1) \<Rightarrow> (Inl e, w1)
         | (None, w1) \<Rightarrow>
     (case (if \<not> is_valid then None else validated) of
           None \<Rightarrow>
             insert_error_event L insert_row config message_id publish_dt ingestion_time
               event_id_str ''validation'' ''Schema validation failed'' validation_errors
               event attributes w1
         | Some v \<Rightarrow>
     (case to_rfc3339 event_time_dt of
           Inl e \<Rightarrow> (Inl e, w1)
         | Inr event_time_s \<Rightarrow>
     (case to_rfc3339 (Some ingestion_time) of
           Inl e \<Rightarrow> (Inl e, w1)
         | Inr ingestion_s2 \<Rightarrow>
     (let processed_row =
            [(''event_id'', opt_str event_id_str),
             (''user_id'', VStr (user_id v)),
             (''event_type'', VStr (EventType_value (event_type v))),
             (''product_id'', VStr (product_id v)),
             (''category'', VStr (category v)),
             (''price'', VFloat (price v)),
             (''device'', VStr (DeviceType_value (device v))),
             (''city'', VStr (city v)),
             (''event_time'', opt_str event_time_s),
             (''ingestion_time'', opt_str ingestion_s2)]
      in case insert_row (processed_target, processed_row, insert_id) w1 of
           (None, w2) \<Rightarrow> (Inr (), w2)
         | (Some exc, w2) \<Rightarrow>
             (case insert_error_event L insert_row config message_id publish_dt
                     ingestion_time event_id_str ''processed_insert'' (exn_str exc) None
                     event attributes w2 of
                (Inl exc2, w3) \<Rightarrow> (Inl exc2, w3)
              | (Inr u, w3) \<Rightarrow> (Inl exc, w3)))))))))))"

section \<open>Observing the writes of one call\<close>

text \<open>
  The calls of \<open>writer.insert_row\<close> that one run of \<open>process_event\<close> makes are observed by
  wrapping the writer: \<open>logged ins\<close> behaves as \<open>ins\<close> and appends each call to a log
  kept beside the writer's state. \<open>run\<close> is \<open>process_event\<close> on an empty log.
\<close>

definition logged :: "('f, 'w) writer \<Rightarrow> ('f, 'w \<times> 'f insert_call list) writer" where
  "logged ins c = (\<lambda>(w, calls). case ins c w of (r, w') \<Rightarrow> (r, (w', calls @ [c])))"

definition run ::
  "('f::{zero,ord}) pylib \<Rightarrow> ('f, 'w) writer \<Rightarrow> PipelineConfig \<Rightarrow> datetime \<Rightarrow> 'f pydict
   \<Rightarrow> string option \<Rightarrow> string option \<Rightarrow> 'f pydict option \<Rightarrow> 'w
   \<Rightarrow> (exn + unit) \<times> 'w \<times> 'f insert_call list" where
  "run L ins config clock event message_id publish_time attributes w =
     process_event L (logged ins) config clock event message_id publish_time attributes (w, [])"

definition call_row :: "'f insert_call \<Rightarrow> 'f row" where
  "call_row c = fst (snd c)"

definition call_insert_id :: "'f insert_call \<Rightarrow> string option" where
  "call_insert_id c = snd (snd c)"

text \<open>
  The three shapes of row: only the Raw Row has the key \<open>is_valid\<close>, only the Processed
  Row the key \<open>user_id\<close>, only the Error Row the key \<open>stage\<close>.
\<close>

definition is_raw_call :: "'f insert_call \<Rightarrow> bool" where
  "is_raw_call c = (map_of (call_row c) ''is_valid'' \<noteq> None)"

definition is_processed_call :: "'f insert_call \<Rightarrow> bool" where
  "is_processed_call c = (map_of (call_row c) ''user_id'' \<noteq> None)"

definition is_error_call :: "string \<Rightarrow> 'f insert_call \<Rightarrow> bool" where
  "is_error_call stage c = (map_of (call_row c) ''stage'' = Some (VStr stage))"

text \<open>The timestamp fields of a row, whichever of them it has.\<close>

definition timestamp_cells :: "'f row \<Rightarrow> 'f cell list" where
  "timestamp_cells r =
     map snd (filter (\<lambda>kv. fst kv \<in> {''publish_time'', ''ingestion_time'', ''event_time''}) r)"

text \<open>
  An RFC 3339 string that denotes an instant in UTC and ends in \<open>Z\<close>.
\<close>

definition is_rfc3339_utc :: "string \<Rightarrow> bool" where
  "is_rfc3339_utc s =
     (s \<noteq> [] \<and> last s = CHR ''Z''
      \<and> (case rfc3339_datetime s of Some d \<Rightarrow> tzinfo d = Some 0 | None \<Rightarrow> False))"

definition timestamp_cell_ok :: "'f cell \<Rightarrow> bool" where
  "timestamp_cell_ok c = (case c of VNull \<Rightarrow> True | VStr s \<Rightarrow> is_rfc3339_utc s | _ \<Rightarrow> False)"


text \<open>The names of the fields of \<open>EcommerceEvent\<close>, in the order of their declaration.\<close>

definition FIELDS :: "string list" where
  "FIELDS = [''event_id'', ''user_id'', ''event_type'', ''product_id'', ''category'',
             ''price'', ''device'', ''city'', ''event_time'']"

text \<open>
  The defects of one field taken alone. \<open>refusal\<close> is the verdict of the validator of
  the field on one value; \<open>field_errors\<close> looks at the input under the key of the field
  only: an absent key is the defect \<open>missing\<close>, a refused value the defect of the
  validator.
\<close>

definition verdict :: "defect_type + 'a \<Rightarrow> defect_type option" where
  "verdict r = (case r of Inl t \<Rightarrow> Some t | Inr x \<Rightarrow> None)"

definition refusal :: "('f::{zero,ord}) pylib \<Rightarrow> string \<Rightarrow> 'f json \<Rightarrow> defect_type option" where
  "refusal L name j =
     (if name = ''event_id'' then verdict (validate_uuid L j)
      else if name = ''event_type'' then verdict (validate_EventType j)
      else if name = ''price'' then verdict (validate_price L j)
      else if name = ''device'' then verdict (validate_DeviceType j)
      else if name = ''event_time'' then verdict (validate_datetime L j)
      else verdict (validate_str j))"

definition field_errors :: "('f::{zero,ord}) pylib \<Rightarrow> 'f pydict \<Rightarrow> string \<Rightarrow> defect list" where
  "field_errors L ev name =
     (case dict_get ev name of
        None \<Rightarrow> [Defect name missing]
      | Some j \<Rightarrow> (case refusal L name j of Some t \<Rightarrow> [Defect name t] | None \<Rightarrow> []))"

text \<open>The instant of a datetime, in microseconds; a naive value is read as UTC.\<close>

definition instant :: "datetime \<Rightarrow> int" where
  "instant d =
     (((ymd2ord (year d) (month d) (day d) * 24 + hour d) * 60 + minute d) * 60
        + second d) * 1000000 + microsecond d
     - (case tzinfo d of None \<Rightarrow> 0 | Some off \<Rightarrow> off)"

section \<open>Sample inputs\<close>

definition sample_config :: PipelineConfig where
  "sample_config =
     \<lparr>PipelineConfig.dataset_id = ''ecommerce_streaming'', raw_table_id = ''ecommerce_raw_events'',
      processed_table_id = ''ecommerce_processed_events'',
      error_table_id = ''ecommerce_error_events'', source = ''pubsub''\<rparr>"

definition sample_clock :: datetime where
  "sample_clock =
     \<lparr>year = 2024, month = 1, day = 2, hour = 3, minute = 4, second = 5, microsecond = 0,
      tzinfo = None\<rparr>"

text \<open>The valid event of the scenario in the specification.\<close>

definition sample_event :: "real pydict" where
  "sample_event =
     [(''event_id'', JStr ''123e4567-e89b-12d3-a456-426614174000''),
      (''user_id'', JStr ''U1''),
      (''event_type'', JStr ''purchase''),
      (''product_id'', JStr ''P1''),
      (''category'', JStr ''electronics''),
      (''price'', JFloat 12.5),
      (''device'', JStr ''mobile''),
      (''city'', JStr ''Lagos''),
      (''event_time'', JStr ''2024-01-01T00:00:00Z'')]"

text \<open>The same event without \<open>event_type\<close>.\<close>

definition sample_invalid_event :: "real pydict" where
  "sample_invalid_event = filter (\<lambda>kv. fst kv \<noteq> ''event_type'') sample_event"

text \<open>
  A writer without state that raises \<open>RuntimeError\<close> on every insert into one of the
  listed tables, as \<open>BigQueryWriter.insert_row\<close> does when the insert reports errors.
\<close>

definition failing_writer :: "string list \<Rightarrow> (real, unit) writer" where
  "failing_writer tables c w =
     (if table_id (fst c) \<in> set tables
      then Some (Exn ''RuntimeError'' (''BigQuery insert failed for '' @ table_id (fst c)))
      else None, w)"


definition sample_extended_event :: "real pydict" where
  "sample_extended_event =
     sample_invalid_event @ [(''campaign'', JStr ''spring''), (''retries'', JInt 3)]"

section \<open>The calls of a run, one by one\<close>

text \<open>
  The same run, told by its calls: the two timestamps that are converted before the first
  write, the three calls that can follow, and the order in which the outcome of each
  decides the next. \<open>run_calls\<close> below is proved equal to \<open>run\<close>; the claims are then
  read off this form.
\<close>

definition utc_str :: "datetime \<Rightarrow> string" where
  "utc_str d = str_replace (isoformat d) ''+00:00'' ''Z''"

definition timestamps ::
  "('f::{zero,ord}) pylib \<Rightarrow> 'f pydict \<Rightarrow> string option
   \<Rightarrow> exn + datetime option \<times> datetime option" where
  "timestamps L event publish_time =
     (case parse_rfc3339_timestamp L publish_time of
        Inl e \<Rightarrow> Inl e
      | Inr publish_dt \<Rightarrow>
          (case (case model_validate L event of
                   Inr v \<Rightarrow>
                     (case tzinfo (event_time v) of
                        Some off \<Rightarrow>
                          (case astimezone_utc (event_time v) off of
                             Inl e \<Rightarrow> Inl e
                           | Inr u \<Rightarrow> Inr (Some u))
                      | None \<Rightarrow> Inr (Some (replace_tzinfo_utc (event_time v))))
                 | Inl ds \<Rightarrow>
                     parse_rfc3339_timestamp L
                       (case dict_get event ''event_time'' of
                          None \<Rightarrow> None
                        | Some JNull \<Rightarrow> None
                        | Some j \<Rightarrow> Some (str_of L j))) of
             Inl e \<Rightarrow> Inl e
           | Inr event_time_dt \<Rightarrow> Inr (publish_dt, event_time_dt)))"

definition insert_id_of ::
  "('f::{zero,ord}) pylib \<Rightarrow> 'f pydict \<Rightarrow> string option \<Rightarrow> string option" where
  "insert_id_of L event message_id =
     (case model_validate L event of
        Inr v \<Rightarrow> Some (uuid_str (event_id v))
      | Inl ds \<Rightarrow> message_id)"

definition raw_call ::
  "('f::{zero,ord}) pylib \<Rightarrow> PipelineConfig \<Rightarrow> datetime \<Rightarrow> 'f pydict \<Rightarrow> string option
   \<Rightarrow> 'f pydict option \<Rightarrow> datetime option \<Rightarrow> 'f insert_call" where
  "raw_call L config clock event message_id attributes publish_dt =
     (\<lparr>BigQueryTarget.dataset_id = PipelineConfig.dataset_id config,
       table_id = raw_table_id config\<rparr>,
      [(''message_id'', opt_str message_id),
       (''event_id'',
          opt_str (case model_validate L event of
                     Inr v \<Rightarrow> Some (uuid_str (event_id v)) | Inl ds \<Rightarrow> None)),
       (''publish_time'', opt_str (map_option utc_str publish_dt)),
       (''ingestion_time'', VStr (utc_str (utc_now clock))),
       (''raw_payload'', VStr (json_dumps L (JObj event))),
       (''source'', VStr (source config)),
       (''attributes'',
          VStr (json_dumps L (JObj (case attributes of Some a \<Rightarrow> a | None \<Rightarrow> [])))),
       (''is_valid'', VBool (case model_validate L event of Inr v \<Rightarrow> True | Inl ds \<Rightarrow> False)),
       (''validation_errors'',
          (case model_validate L event of
             Inl ds \<Rightarrow> if ds \<noteq> [] then VStr (errors_dumps L ds) else VNull
           | Inr v \<Rightarrow> VNull))],
      insert_id_of L event message_id)"

definition error_call ::
  "('f::{zero,ord}) pylib \<Rightarrow> PipelineConfig \<Rightarrow> datetime \<Rightarrow> 'f pydict \<Rightarrow> string option
   \<Rightarrow> 'f pydict option \<Rightarrow> datetime option \<Rightarrow> string \<Rightarrow> string \<Rightarrow> defect list option
   \<Rightarrow> 'f insert_call" where
  "error_call L config clock event message_id attributes publish_dt stage error_message
       error_details =
     (\<lparr>BigQueryTarget.dataset_id = PipelineConfig.dataset_id config,
       table_id = error_table_id config\<rparr>,
      [(''message_id'', opt_str message_id),
       (''event_id'',
          opt_str (case model_validate L event of
                     Inr v \<Rightarrow> Some (uuid_str (event_id v)) | Inl ds \<Rightarrow> None)),
       (''publish_time'', opt_str (map_option utc_str publish_dt)),
       (''ingestion_time'', VStr (utc_str (utc_now clock))),
       (''stage'', VStr stage),
       (''error_message'', VStr error_message),
       (''error_details'',
          (case error_details of Some ds \<Rightarrow> VStr (errors_dumps L ds) | None \<Rightarrow> VNull)),
       (''raw_payload'', VStr (json_dumps L (JObj event))),
       (''attributes'',
          VStr (json_dumps L (JObj (case attributes of Some a \<Rightarrow> a | None \<Rightarrow> [])))),
       (''source'', VStr (source config))],
      insert_id_of L event message_id)"

definition processed_call ::
  "PipelineConfig \<Rightarrow> datetime \<Rightarrow> 'f EcommerceEvent \<Rightarrow> datetime option \<Rightarrow> 'f insert_call" where
  "processed_call config clock v event_time_dt =
     (\<lparr>BigQueryTarget.dataset_id = PipelineConfig.dataset_id config,
       table_id = processed_table_id config\<rparr>,
      [(''event_id'', VStr (uuid_str (event_id v))),
       (''user_id'', VStr (user_id v)),
       (''event_type'', VStr (EventType_value (event_type v))),
       (''product_id'', VStr (product_id v)),
       (''category'', VStr (category v)),
       (''price'', VFloat (price v)),
       (''device'', VStr (DeviceType_value (device v))),
       (''city'', VStr (city v)),
       (''event_time'', opt_str (map_option utc_str event_time_dt)),
       (''ingestion_time'', VStr (utc_str (utc_now clock)))],
      Some (uuid_str (event_id v)))"

definition run_calls ::
  "('f::{zero,ord}) pylib \<Rightarrow> ('f, 'w) writer \<Rightarrow> PipelineConfig \<Rightarrow> datetime \<Rightarrow> 'f pydict
   \<Rightarrow> string option \<Rightarrow> string option \<Rightarrow> 'f pydict option \<Rightarrow> 'w
   \<Rightarrow> (exn + unit) \<times> 'w \<times> 'f insert_call list" where
  "run_calls L ins config clock event message_id publish_time attributes w =
     (case timestamps L event publish_time of
        Inl e \<Rightarrow> (Inl e, w, [])
      | Inr (publish_dt, event_time_dt) \<Rightarrow>
          (let c1 = raw_call L config clock event message_id attributes publish_dt;
               r1 = fst (ins c1 w); w1 = snd (ins c1 w)
           in case r1 of
                Some e \<Rightarrow> (Inl e, w1, [c1])
              | None \<Rightarrow>
                  (case model_validate L event of
                     Inl ds \<Rightarrow>
                       (let c2 = error_call L config clock event message_id attributes
                                   publish_dt ''validation'' ''Schema validation failed''
                                   (Some ds);
                            r2 = fst (ins c2 w1); w2 = snd (ins c2 w1)
                        in ((case r2 of Some e \<Rightarrow> Inl e | None \<Rightarrow> Inr ()), w2, [c1, c2]))
                   | Inr v \<Rightarrow>
                       (let c2 = processed_call config clock v event_time_dt;
                            r2 = fst (ins c2 w1); w2 = snd (ins c2 w1)
                        in case r2 of
                             None \<Rightarrow> (Inr (), w2, [c1, c2])
                           | Some exc \<Rightarrow>
                               (let c3 = error_call L config clock event message_id
                                           attributes publish_dt ''processed_insert''
                                           (exn_str exc) None;
                                    r3 = fst (ins c3 w2); w3 = snd (ins c3 w2)
                                in ((case r3 of Some exc2 \<Rightarrow> Inl exc2 | None \<Rightarrow> Inl exc),
                                    w3, [c1, c2, c3]))))))"

section \<open>Basic facts\<close>

lemma dec_lt: "n < 10 \<Longrightarrow> dec n = [digit_char n]"
  by (simp add: dec.simps)

lemma dec_ge: "\<not> n < 10 \<Longrightarrow> dec n = dec (n div 10) @ [digit_char (n mod 10)]"
  by (subst dec.simps) simp

lemma hex_lt: "n < 16 \<Longrightarrow> hex n = [hex_char n]"
  by (simp add: hex.simps)

lemma hex_ge: "\<not> n < 16 \<Longrightarrow> hex n = hex (n div 16) @ [hex_char (n mod 16)]"
  by (subst hex.simps) simp

lemma logged_apply: "logged ins c (w, cs) = (fst (ins c w), (snd (ins c w), cs @ [c]))"
  by (simp add: logged_def split: prod.splits)

lemma replace_tzinfo_utc_id: "tzinfo d = Some 0 \<Longrightarrow> replace_tzinfo_utc d = d"
  by (cases d) (simp add: replace_tzinfo_utc_def)

lemma tzinfo_replace [simp]: "tzinfo (replace_tzinfo_utc d) = Some 0"
  by (simp add: replace_tzinfo_utc_def)

lemma astimezone_utc_tz: "astimezone_utc d off = Inr u \<Longrightarrow> tzinfo u = Some 0"
  by (auto simp: astimezone_utc_def split: if_splits sum.splits)

lemma parse_tz: "parse_rfc3339_timestamp L v = Inr (Some d) \<Longrightarrow> tzinfo d = Some 0"
  by (auto simp: parse_rfc3339_timestamp_def Let_def
      split: option.splits if_splits sum.splits dest: astimezone_utc_tz)

lemma to_rfc3339_utc:
  "tzinfo d = Some 0 \<Longrightarrow>
   to_rfc3339 (Some d) = Inr (Some (str_replace (isoformat d) ''+00:00'' ''Z''))"
  by (simp add: to_rfc3339_def astimezone_utc_def replace_tzinfo_utc_id)

lemma to_rfc3339_None [simp]: "to_rfc3339 None = Inr None"
  by (simp add: to_rfc3339_def)

text \<open>The definitions that evaluate a run on the sample inputs.\<close>

lemmas eval_defs =
  process_event_def insert_error_event_def logged_apply model_validate_def
  validate_field_def dict_get_def errors_of_def validate_str_def validate_enum_def
  validate_EventType_def validate_DeviceType_def validate_uuid_def validate_price_def
  validate_datetime_def uuid_hyphenated_def hex_val_def uuid_str_def hex_lt hex_ge
  hex_char_def parse_rfc3339_timestamp_def strip_def isspace_def str_replace_def
  fromisoformat_def rfc3339_datetime_def num_def is_digit_def parse_fraction_def
  parse_offset_def valid_datetime_def days_in_month_def is_leap_def DAYS_IN_MONTH_def
  astimezone_utc_def datetime_sub_def ymd2ord_def days_before_year_def
  days_before_month_def DAYS_BEFORE_MONTH_def MAXORDINAL_def to_rfc3339_def isoformat_def
  format_time_def format_offset_def fmt_d_def dec_lt dec_ge digit_char_def
  replace_tzinfo_utc_def utc_now_def py_or_def opt_str_def str_of_def strict_lib_def
  checked_datetime_def sample_config_def sample_clock_def sample_event_def
  sample_invalid_event_def failing_writer_def Let_def

section \<open>A run is its calls\<close>

lemma uuid_str_nonempty: "uuid_str u \<noteq> []"
  by (simp add: uuid_str_def Let_def)

lemma py_or_uuid [simp]: "py_or (Some (uuid_str u)) m = Some (uuid_str u)"
  by (simp add: py_or_def uuid_str_nonempty)

lemma py_or_None [simp]: "py_or None m = m"
  by (simp add: py_or_def)

lemma to_rfc3339_utc_str: "tzinfo d = Some 0 \<Longrightarrow> to_rfc3339 (Some d) = Inr (Some (utc_str d))"
  by (simp add: to_rfc3339_utc utc_str_def)

lemma to_rfc3339_parsed:
  "parse_rfc3339_timestamp L v = Inr p \<Longrightarrow> to_rfc3339 p = Inr (map_option utc_str p)"
  by (cases p) (auto simp: to_rfc3339_utc_str dest: parse_tz)

lemma to_rfc3339_now: "to_rfc3339 (Some (utc_now clock)) = Inr (Some (utc_str (utc_now clock)))"
  by (simp add: to_rfc3339_utc_str utc_now_def)

lemmas run_unfold = run_def process_event_def insert_error_event_def run_calls_def
  timestamps_def raw_call_def error_call_def processed_call_def insert_id_of_def Let_def
  logged_apply opt_str_def

lemma run_eq_run_calls:
  "run L ins config clock event message_id publish_time attributes w =
   run_calls L ins config clock event message_id publish_time attributes w"
proof (cases "parse_rfc3339_timestamp L publish_time")
  case (Inl e)
  then show ?thesis by (simp add: run_def process_event_def run_calls_def timestamps_def)
next
  case P: (Inr p)
  note Ps = to_rfc3339_parsed [OF P]
  note Ns = to_rfc3339_now [of clock]
  show ?thesis
  proof (cases "model_validate L event")
    case V: (Inl ds)
    show ?thesis
    proof (cases "parse_rfc3339_timestamp L
                     (case dict_get event ''event_time'' of
                        None \<Rightarrow> None
                      | Some JNull \<Rightarrow> None
                      | Some j \<Rightarrow> Some (str_of L j))")
      case (Inl e)
      then show ?thesis using P V by (simp add: run_unfold)
    next
      case (Inr t)
      then show ?thesis using P V Ps Ns by (simp add: run_unfold split: option.split)
    qed
  next
    case V: (Inr v)
    show ?thesis
    proof (cases "tzinfo (event_time v)")
      case None
      then show ?thesis using P V Ps Ns
        by (simp add: run_unfold to_rfc3339_utc_str split: option.split)
    next
      case (Some off)
      show ?thesis
      proof (cases "astimezone_utc (event_time v) off")
        case (Inl e)
        then show ?thesis using P V Some by (simp add: run_unfold)
      next
        case (Inr u)
        then show ?thesis using P V Some Ps Ns astimezone_utc_tz [OF Inr]
          by (simp add: run_unfold to_rfc3339_utc_str split: option.split)
      qed
    qed
  qed
qed


section \<open>The shape of each call\<close>

lemma is_raw_raw [simp]:
  "is_raw_call (raw_call L config clock event message_id attributes p)"
  by (simp add: is_raw_call_def call_row_def raw_call_def)

lemma is_raw_error [simp]:
  "\<not> is_raw_call (error_call L config clock event message_id attributes p st m d)"
  by (simp add: is_raw_call_def call_row_def error_call_def)

lemma is_raw_processed [simp]: "\<not> is_raw_call (processed_call config clock v t)"
  by (simp add: is_raw_call_def call_row_def processed_call_def)

lemma is_processed_raw [simp]:
  "\<not> is_processed_call (raw_call L config clock event message_id attributes p)"
  by (simp add: is_processed_call_def call_row_def raw_call_def)

lemma is_processed_error [simp]:
  "\<not> is_processed_call (error_call L config clock event message_id attributes p st m d)"
  by (simp add: is_processed_call_def call_row_def error_call_def)

lemma is_processed_processed [simp]: "is_processed_call (processed_call config clock v t)"
  by (simp add: is_processed_call_def call_row_def processed_call_def)

lemma is_error_raw [simp]:
  "\<not> is_error_call st (raw_call L config clock event message_id attributes p)"
  by (simp add: is_error_call_def call_row_def raw_call_def)

lemma is_error_error [simp]:
  "is_error_call st (error_call L config clock event message_id attributes p st' m d)
   \<longleftrightarrow> st = st'"
  by (auto simp add: is_error_call_def call_row_def error_call_def)

lemma is_error_processed [simp]: "\<not> is_error_call st (processed_call config clock v t)"
  by (simp add: is_error_call_def call_row_def processed_call_def)

lemma error_call_message [simp]:
  "map_of (call_row (error_call L config clock event message_id attributes p st m d))
     ''error_message'' = Some (VStr m)"
  by (simp add: call_row_def error_call_def)

lemma insert_id_raw [simp]:
  "call_insert_id (raw_call L config clock event message_id attributes p)
   = insert_id_of L event message_id"
  by (simp add: call_insert_id_def raw_call_def)

lemma insert_id_error [simp]:
  "call_insert_id (error_call L config clock event message_id attributes p st m d)
   = insert_id_of L event message_id"
  by (simp add: call_insert_id_def error_call_def)

lemma insert_id_processed [simp]:
  "call_insert_id (processed_call config clock v t) = Some (uuid_str (event_id v))"
  by (simp add: call_insert_id_def processed_call_def)

lemma table_raw [simp]:
  "table_id (fst (raw_call L config clock event message_id attributes p))
   = raw_table_id config"
  by (simp add: raw_call_def)

lemma table_error [simp]:
  "table_id (fst (error_call L config clock event message_id attributes p st m d))
   = error_table_id config"
  by (simp add: error_call_def)

lemma table_processed [simp]:
  "table_id (fst (processed_call config clock v t)) = processed_table_id config"
  by (simp add: processed_call_def)

lemmas run_calls_unfold = run_eq_run_calls run_calls_def Let_def

section \<open>The sample inputs, evaluated\<close>

lemma sample_event_valid:
  "model_validate strict_lib sample_event =
   Inr \<lparr>event_id = UUID 0x123e4567e89b12d3a456426614174000, user_id = ''U1'',
        event_type = purchase, product_id = ''P1'', category = ''electronics'',
        price = 12.5, device = mobile, city = ''Lagos'',
        event_time = \<lparr>year = 2024, month = 1, day = 1, hour = 0, minute = 0, second = 0,
                       microsecond = 0, tzinfo = Some 0\<rparr>\<rparr>"
  by (simp add: eval_defs)

lemma sample_invalid_event_defects:
  "model_validate strict_lib sample_invalid_event = Inl [Defect ''event_type'' missing]"
  by (simp add: eval_defs)

lemma sample_uuid_str:
  "uuid_str (UUID 0x123e4567e89b12d3a456426614174000)
   = ''123e4567-e89b-12d3-a456-426614174000''"
  by (simp add: uuid_str_def hex_lt hex_ge hex_char_def)

lemma sample_event_timestamps:
  "timestamps strict_lib sample_event None =
   Inr (None, Some \<lparr>year = 2024, month = 1, day = 1, hour = 0, minute = 0, second = 0,
                     microsecond = 0, tzinfo = Some 0\<rparr>)"
  by (simp add: timestamps_def sample_event_valid parse_rfc3339_timestamp_def
      astimezone_utc_def replace_tzinfo_utc_def)

lemma sample_invalid_event_timestamps:
  "timestamps strict_lib sample_invalid_event None =
   Inr (None, Some \<lparr>year = 2024, month = 1, day = 1, hour = 0, minute = 0, second = 0,
                     microsecond = 0, tzinfo = Some 0\<rparr>)"
  unfolding timestamps_def sample_invalid_event_defects
  by (simp add: eval_defs)

lemma overflow_timestamp:
  "parse_rfc3339_timestamp L (Some ''0001-01-01T00:00:00+01:00'') = Inl OverflowError"
  by (simp add: eval_defs)

lemmas sample_evals =
  run_calls_unfold sample_event_valid sample_invalid_event_defects sample_event_timestamps
  sample_invalid_event_timestamps failing_writer_def sample_config_def insert_id_of_def
  sample_uuid_str

section \<open>The router: which writes happen, and what leaves the function\<close>

text \<open>
  Claim C5. If the Raw Row write fails, no other write is attempted and the failure of
  that write is what leaves \<open>process_event\<close>: whenever a run makes a call at all, the first
  call is the Raw Row write, and if the writer raises \<open>e\<close> on it then it is the only call
  and the result is \<open>e\<close>.
\<close>

theorem raw_write_failure_stops:
  assumes "run L ins config clock event message_id publish_time attributes w = (res, w', cs)"
    and "cs \<noteq> []"
    and "fst (ins (hd cs) w) = Some e"
  shows "is_raw_call (hd cs) \<and> length cs = 1 \<and> res = Inl e"
  using assms unfolding run_calls_unfold
  by (auto split: sum.splits option.splits)

text \<open>Claim C5, at the sample event with a writer that fails on the raw table.\<close>

theorem raw_write_failure_stops_witness:
  "length (snd (snd (run strict_lib (failing_writer [''ecommerce_raw_events''])
                      sample_config sample_clock sample_event (Some ''m-1'') None None ())))
     = 1
   \<and> fst (run strict_lib (failing_writer [''ecommerce_raw_events''])
            sample_config sample_clock sample_event (Some ''m-1'') None None ())
     = Inl (Exn ''RuntimeError'' ''BigQuery insert failed for ecommerce_raw_events'')"
proof -
  let ?r = "run strict_lib (failing_writer [''ecommerce_raw_events''])
              sample_config sample_clock sample_event (Some ''m-1'') None None ()"
  have 1: "?r = (fst ?r, fst (snd ?r), snd (snd ?r))"
    by (simp only: prod.collapse)
  have 2: "snd (snd ?r) \<noteq> []"
    by (simp add: sample_evals)
  have 3: "fst (failing_writer [''ecommerce_raw_events''] (hd (snd (snd ?r))) ())
           = Some (Exn ''RuntimeError'' ''BigQuery insert failed for ecommerce_raw_events'')"
    by (simp add: sample_evals)
  show ?thesis
    using raw_write_failure_stops [OF 1 2 3] by simp
qed

text \<open>
  Claim C1, as stated, fails: the sample event without \<open>event_type\<close> still carries its
  \<open>event_id\<close>, and both of its rows are written under the key \<open>message_id\<close>.
\<close>

theorem key_of_invalid_event_is_message_id:
  "dict_get sample_invalid_event ''event_id''
     = Some (JStr ''123e4567-e89b-12d3-a456-426614174000'')
   \<and> map call_insert_id
       (snd (snd (run strict_lib (failing_writer []) sample_config sample_clock
                    sample_invalid_event (Some ''m-1'') None None ())))
     = [Some ''m-1'', Some ''m-1'']"
  by (simp add: sample_evals)
     (simp add: sample_invalid_event_def sample_event_def dict_get_def)

text \<open>
  Claim C1, amended. Every write of a run carries the same key. When the event passes
  validation the key is the canonical string of its validated \<open>event_id\<close>, whatever the
  other fields and the \<open>message_id\<close> are; when the event fails validation the key is the
  \<open>message_id\<close> (absent when the \<open>message_id\<close> is absent), also when the payload has an
  \<open>event_id\<close>.
\<close>

theorem idempotency_key_derivation:
  assumes "run L ins config clock event message_id publish_time attributes w = (res, w', cs)"
    and "c \<in> set cs"
  shows "call_insert_id c =
           (case model_validate L event of
              Inr v \<Rightarrow> Some (uuid_str (event_id v))
            | Inl ds \<Rightarrow> message_id)"
  using assms unfolding run_calls_unfold
  by (auto simp: insert_id_of_def split: sum.splits option.splits)

text \<open>Claim C1, amended, at the valid sample event: the key of the Raw Row.\<close>

theorem idempotency_key_derivation_witness:
  "call_insert_id
     (hd (snd (snd (run strict_lib (failing_writer []) sample_config sample_clock
                      sample_event (Some ''m-1'') None None ()))))
   = Some ''123e4567-e89b-12d3-a456-426614174000''"
proof -
  let ?r = "run strict_lib (failing_writer []) sample_config sample_clock sample_event
              (Some ''m-1'') None None ()"
  have 1: "?r = (fst ?r, fst (snd ?r), snd (snd ?r))"
    by (simp only: prod.collapse)
  have 2: "hd (snd (snd ?r)) \<in> set (snd (snd ?r))"
    by (simp add: sample_evals)
  show ?thesis
    using idempotency_key_derivation [OF 1 2]
    by (simp add: sample_event_valid sample_uuid_str)
qed




text \<open>
  The writes of a run, in general. A run that makes no call has raised before its first
  write. A run that makes a call makes exactly one Raw Row write, first; at most one of
  the Processed Row write and the Error Row write with stage \<open>validation\<close>, the first
  exactly when the event is valid and the Raw Row write succeeded, the second exactly
  when the event is invalid and the Raw Row write succeeded; and an Error Row write with
  stage \<open>processed_insert\<close> only as the third call, after a Processed Row write that
  raised.
\<close>

lemma write_sequence:
  assumes "run L ins config clock event message_id publish_time attributes w = (res, w', cs)"
  shows "(cs = [] \<longrightarrow> w' = w \<and> isl res)
     \<and> (cs \<noteq> [] \<longrightarrow>
          is_raw_call (hd cs) \<and> length (filter is_raw_call cs) = 1
          \<and> length (filter is_processed_call cs)
              + length (filter (is_error_call ''validation'') cs) \<le> 1
          \<and> (length (filter is_processed_call cs) = 1
               \<longleftrightarrow> \<not> isl (model_validate L event) \<and> fst (ins (hd cs) w) = None)
          \<and> (length (filter (is_error_call ''validation'') cs) = 1
               \<longleftrightarrow> isl (model_validate L event) \<and> fst (ins (hd cs) w) = None)
          \<and> (\<forall>i < length cs. is_error_call ''processed_insert'' (cs ! i) \<longrightarrow>
                i = 2 \<and> is_processed_call (cs ! 1)
                \<and> fst (ins (cs ! 1) (snd (ins (cs ! 0) w))) \<noteq> None))"
  using assms unfolding run_calls_unfold
  by (auto simp: nth_Cons' split: sum.splits option.splits if_splits)

lemma no_write_when_publish_time_overflows:
  "parse_rfc3339_timestamp L publish_time = Inl e \<Longrightarrow>
   run L ins config clock event message_id publish_time attributes w = (Inl e, w, [])"
  by (simp add: run_calls_unfold timestamps_def)

text \<open>
  Claim C3, the failing input. With the \<open>publish_time\<close> \<open>0001-01-01T00:00:00+01:00\<close> the
  conversion to UTC raises \<open>OverflowError\<close> in the first statement of \<open>process_event\<close>:
  the run makes no call at all, so no Raw Row write is attempted.
\<close>

theorem no_raw_write_on_timestamp_overflow:
  "run strict_lib (failing_writer []) sample_config sample_clock sample_event
     (Some ''m-1'') (Some ''0001-01-01T00:00:00+01:00'') None ()
   = (Inl OverflowError, (), [])"
  by (rule no_write_when_publish_time_overflows [OF overflow_timestamp])

text \<open>
  What follows a Processed Row write that raised \<open>exc\<close>: an Error Row write with stage
  \<open>processed_insert\<close> whose \<open>error_message\<close> is \<open>str(exc)\<close>; \<open>exc\<close> leaves
  \<open>process_event\<close> when that write returns, and the exception of that write leaves it
  when that write raises.
\<close>

lemma processed_write_failure_outcome:
  assumes "model_validate L event = Inr v"
    and "run L ins config clock event message_id publish_time attributes w = (res, w', cs)"
    and "length cs \<ge> 2"
    and "fst (ins (cs ! 1) (snd (ins (cs ! 0) w))) = Some exc"
  shows "length cs = 3 \<and> is_processed_call (cs ! 1)
         \<and> is_error_call ''processed_insert'' (cs ! 2)
         \<and> map_of (call_row (cs ! 2)) ''error_message'' = Some (VStr (exn_str exc))
         \<and> res = (case fst (ins (cs ! 2) (snd (ins (cs ! 1) (snd (ins (cs ! 0) w))))) of
                    Some exc2 \<Rightarrow> Inl exc2
                  | None \<Rightarrow> Inl exc)"
  using assms unfolding run_calls_unfold
  by (auto split: sum.splits option.splits)

text \<open>
  Claim C4, the failing input. The sample event is valid; the writer fails on the
  processed table and on the error table. The three writes are attempted, the Error Row
  carries the message of the first failure, and the exception that leaves
  \<open>process_event\<close> is the one of the Error Row write, not the one of the Processed Row
  write.
\<close>

theorem secondary_failure_replaces_original:
  "map (\<lambda>c. table_id (fst c))
     (snd (snd (run strict_lib
                  (failing_writer [''ecommerce_processed_events'', ''ecommerce_error_events''])
                  sample_config sample_clock sample_event (Some ''m-1'') None None ())))
     = [''ecommerce_raw_events'', ''ecommerce_processed_events'', ''ecommerce_error_events'']
   \<and> fst (run strict_lib
            (failing_writer [''ecommerce_processed_events'', ''ecommerce_error_events''])
            sample_config sample_clock sample_event (Some ''m-1'') None None ())
     = Inl (Exn ''RuntimeError'' ''BigQuery insert failed for ecommerce_error_events'')"
  by (simp add: sample_evals)

section \<open>The schema validator\<close>

lemma field_errors_cong:
  "dict_get event' name = dict_get event name \<Longrightarrow>
   field_errors L event' name = field_errors L event name"
  by (simp add: field_errors_def)

lemma field_errors_missing:
  "dict_get event name = None \<Longrightarrow> field_errors L event name = [Defect name missing]"
  by (simp add: field_errors_def)

lemma field_errors_refused:
  "dict_get event name = Some j \<Longrightarrow> refusal L name j = Some t \<Longrightarrow>
   field_errors L event name = [Defect name t]"
  by (simp add: field_errors_def)

lemma field_errors_loc: "d \<in> set (field_errors L event name) \<Longrightarrow> loc d = name"
  by (auto simp: field_errors_def split: option.splits)

lemma errors_of_validate_field:
  "errors_of (validate_field event name v) =
     (case dict_get event name of
        None \<Rightarrow> [Defect name missing]
      | Some j \<Rightarrow> (case verdict (v j) of Some t \<Rightarrow> [Defect name t] | None \<Rightarrow> []))"
  by (simp add: errors_of_def validate_field_def verdict_def split: option.split sum.split)

lemma field_errors_validate:
  "refusal L name = (\<lambda>j. verdict (v j)) \<Longrightarrow>
   field_errors L event name = errors_of (validate_field event name v)"
  by (simp add: field_errors_def errors_of_validate_field split: option.split)

lemma refusal_fields:
  "refusal L ''event_id'' = (\<lambda>j. verdict (validate_uuid L j))"
  "refusal L ''user_id'' = (\<lambda>j. verdict (validate_str j))"
  "refusal L ''event_type'' = (\<lambda>j. verdict (validate_EventType j))"
  "refusal L ''product_id'' = (\<lambda>j. verdict (validate_str j))"
  "refusal L ''category'' = (\<lambda>j. verdict (validate_str j))"
  "refusal L ''price'' = (\<lambda>j. verdict (validate_price L j))"
  "refusal L ''device'' = (\<lambda>j. verdict (validate_DeviceType j))"
  "refusal L ''city'' = (\<lambda>j. verdict (validate_str j))"
  "refusal L ''event_time'' = (\<lambda>j. verdict (validate_datetime L j))"
  by (rule ext, simp add: refusal_def)+

lemma field_errors_concat:
  "concat (map (field_errors L event) FIELDS) =
     errors_of (validate_field event ''event_id'' (validate_uuid L))
     @ errors_of (validate_field event ''user_id'' validate_str)
     @ errors_of (validate_field event ''event_type'' validate_EventType)
     @ errors_of (validate_field event ''product_id'' validate_str)
     @ errors_of (validate_field event ''category'' validate_str)
     @ errors_of (validate_field event ''price'' (validate_price L))
     @ errors_of (validate_field event ''device'' validate_DeviceType)
     @ errors_of (validate_field event ''city'' validate_str)
     @ errors_of (validate_field event ''event_time'' (validate_datetime L))"
  by (simp add: FIELDS_def refusal_fields [THEN field_errors_validate])

lemma model_validate_if:
  "\<exists>R. model_validate L event =
         (if concat (map (field_errors L event) FIELDS) = [] then Inr R
          else Inl (concat (map (field_errors L event) FIELDS)))"
  unfolding model_validate_def Let_def field_errors_concat by (rule exI) (rule refl)

lemma model_validate_errors:
  assumes "model_validate L event = Inl ds"
  shows "ds \<noteq> [] \<and> ds = concat (map (field_errors L event) FIELDS)"
  using model_validate_if [of L event] assms by (auto split: if_splits)

lemma model_validate_no_errors:
  assumes "model_validate L event = Inr v"
  shows "concat (map (field_errors L event) FIELDS) = []"
  using model_validate_if [of L event] assms by (auto split: if_splits)

lemma model_validate_cong:
  assumes "\<forall>name \<in> set FIELDS. dict_get event' name = dict_get event name"
  shows "model_validate L event' = model_validate L event"
  using assms by (simp add: model_validate_def validate_field_def FIELDS_def)

text \<open>
  Claim C6. Validation returns the typed event, and then no field has a defect, or a list
  of defects that is not empty. The list is the concatenation, in the order of the
  declarations, of the defects of each field taken alone, so a defect of one field
  never hides the defect of another; the defects of a field depend on the value under
  its own key only; a field whose key is absent has the defect \<open>missing\<close> and a field
  whose value its validator refuses has the defect of the validator; every defect
  is located at a declared field, and two inputs that agree on the nine declared keys
  have the same outcome, whatever other keys they have.
\<close>

theorem validation_collects_all_defects:
  "(case model_validate L event of
      Inr v \<Rightarrow> (\<forall>name \<in> set FIELDS. field_errors L event name = [])
    | Inl ds \<Rightarrow> ds \<noteq> [] \<and> ds = concat (map (field_errors L event) FIELDS)
                \<and> (\<forall>d \<in> set ds. loc d \<in> set FIELDS))
   \<and> (\<forall>name \<in> set FIELDS.
         (dict_get event name = None \<longrightarrow> field_errors L event name = [Defect name missing])
         \<and> (\<forall>j t. dict_get event name = Some j \<longrightarrow> refusal L name j = Some t \<longrightarrow>
               field_errors L event name = [Defect name t])
         \<and> (\<forall>event'. dict_get event' name = dict_get event name \<longrightarrow>
               field_errors L event' name = field_errors L event name))
   \<and> (\<forall>event'. (\<forall>name \<in> set FIELDS. dict_get event' name = dict_get event name) \<longrightarrow>
         model_validate L event' = model_validate L event)"
proof (intro conjI)
  show "case model_validate L event of
          Inr v \<Rightarrow> (\<forall>name \<in> set FIELDS. field_errors L event name = [])
        | Inl ds \<Rightarrow> ds \<noteq> [] \<and> ds = concat (map (field_errors L event) FIELDS)
                    \<and> (\<forall>d \<in> set ds. loc d \<in> set FIELDS)"
  proof (cases "model_validate L event")
    case (Inl ds)
    from model_validate_errors [OF Inl] have ds: "ds \<noteq> []"
      and eq: "ds = concat (map (field_errors L event) FIELDS)" by blast+
    have "loc d \<in> set FIELDS" if "d \<in> set ds" for d
    proof -
      from that eq obtain name where n: "name \<in> set FIELDS"
        and d: "d \<in> set (field_errors L event name)"
        by auto
      from field_errors_loc [OF d] n show ?thesis by simp
    qed
    with ds eq Inl show ?thesis by simp
  next
    case (Inr v)
    from model_validate_no_errors [OF Inr] show ?thesis using Inr by simp
  qed
next
  show "\<forall>name \<in> set FIELDS.
         (dict_get event name = None \<longrightarrow> field_errors L event name = [Defect name missing])
         \<and> (\<forall>j t. dict_get event name = Some j \<longrightarrow> refusal L name j = Some t \<longrightarrow>
               field_errors L event name = [Defect name t])
         \<and> (\<forall>event'. dict_get event' name = dict_get event name \<longrightarrow>
               field_errors L event' name = field_errors L event name)"
    using field_errors_missing field_errors_refused field_errors_cong by blast
next
  show "\<forall>event'. (\<forall>name \<in> set FIELDS. dict_get event' name = dict_get event name) \<longrightarrow>
         model_validate L event' = model_validate L event"
    using model_validate_cong by blast
qed

lemma sample_extended_event_agrees:
  "\<forall>name \<in> set FIELDS.
     dict_get sample_extended_event name = dict_get sample_invalid_event name"
  by (simp add: FIELDS_def sample_extended_event_def sample_invalid_event_def
      sample_event_def dict_get_def)

text \<open>
  Claim C6, at the sample event without \<open>event_type\<close>: its only defect is the missing
  field, and two more keys change nothing.
\<close>

theorem validation_collects_all_defects_witness:
  "field_errors strict_lib sample_invalid_event ''event_type''
     = [Defect ''event_type'' missing]
   \<and> model_validate strict_lib sample_extended_event = Inl [Defect ''event_type'' missing]"
proof -
  have a: "''event_type'' \<in> set FIELDS"
    by (simp add: FIELDS_def)
  have b: "dict_get sample_invalid_event ''event_type'' = None"
    by (simp add: sample_invalid_event_def sample_event_def dict_get_def)
  note T = validation_collects_all_defects [of strict_lib sample_invalid_event]
  have f: "field_errors strict_lib sample_invalid_event ''event_type''
             = [Defect ''event_type'' missing]"
    using T [THEN conjunct2, THEN conjunct1, THEN bspec, OF a] b by simp
  have g: "model_validate strict_lib sample_extended_event
             = model_validate strict_lib sample_invalid_event"
    by (rule T [THEN conjunct2, THEN conjunct2, THEN spec, THEN mp,
                OF sample_extended_event_agrees])
  show ?thesis
    using f g sample_invalid_event_defects by simp
qed

section \<open>The timestamp normaliser\<close>

lemma astimezone_utc_raises: "astimezone_utc d off = Inl e \<Longrightarrow> e = OverflowError"
  by (auto simp: astimezone_utc_def datetime_sub_def Let_def
      split: if_splits prod.splits sum.splits)

lemma parse_rfc3339_timestamp_raises:
  "parse_rfc3339_timestamp L v = Inl e \<Longrightarrow> e = OverflowError"
  by (auto simp: parse_rfc3339_timestamp_def Let_def
      split: option.splits if_splits sum.splits dest: astimezone_utc_raises)

text \<open>
  Claim C7, the failing inputs. \<open>datetime.fromisoformat\<close> accepts both strings; the
  instant of the first is before year 1 in UTC and that of the second after year 9999,
  so \<open>astimezone(UTC)\<close> raises \<open>OverflowError\<close>, which is no \<open>ValueError\<close> and leaves
  \<open>_parse_rfc3339_timestamp\<close>.
\<close>

theorem timestamp_normalizer_raises:
  "parse_rfc3339_timestamp (strict_lib :: real pylib) (Some ''0001-01-01T00:00:00+01:00'')
     = Inl OverflowError
   \<and> parse_rfc3339_timestamp (strict_lib :: real pylib) (Some ''9999-12-31T23:59:59-01:00'')
     = Inl OverflowError"
  by (simp add: eval_defs)

section \<open>\<open>publish_time\<close> and \<open>event_time\<close>\<close>





lemma publish_time_cell_raw [simp]:
  "map_of (call_row (raw_call L config clock event message_id attributes None))
     ''publish_time'' = Some VNull"
  by (simp add: call_row_def raw_call_def opt_str_def)

lemma publish_time_cell_error [simp]:
  "map_of (call_row (error_call L config clock event message_id attributes None st m d))
     ''publish_time'' = Some VNull"
  by (simp add: call_row_def error_call_def opt_str_def)








end
